theory Spec2Isabelle
  imports Main "HOL-Library.Word"
begin

section \<open>Type codes (internal/protocol/typecode.go)\<close>

text \<open>
  \<^verbatim>\<open>type typeCode byte\<close>: a type code is one byte. The constants of the source are
  abbreviations of their byte values.
\<close>

type_synonym typeCode = "8 word"

abbreviation tcNullL :: typeCode where "tcNullL \<equiv> 0x00"
abbreviation tcTinyint :: typeCode where "tcTinyint \<equiv> 0x01"
abbreviation tcSmallint :: typeCode where "tcSmallint \<equiv> 0x02"
abbreviation tcInteger :: typeCode where "tcInteger \<equiv> 0x03"
abbreviation tcBigint :: typeCode where "tcBigint \<equiv> 0x04"
abbreviation tcDecimal :: typeCode where "tcDecimal \<equiv> 0x05"
abbreviation tcReal :: typeCode where "tcReal \<equiv> 0x06"
abbreviation tcDouble :: typeCode where "tcDouble \<equiv> 0x07"
abbreviation tcChar :: typeCode where "tcChar \<equiv> 0x08"
abbreviation tcVarchar :: typeCode where "tcVarchar \<equiv> 0x09"
abbreviation tcNchar :: typeCode where "tcNchar \<equiv> 0x0A"
abbreviation tcNvarchar :: typeCode where "tcNvarchar \<equiv> 0x0B"
abbreviation tcBinary :: typeCode where "tcBinary \<equiv> 0x0C"
abbreviation tcVarbinary :: typeCode where "tcVarbinary \<equiv> 0x0D"
abbreviation tcDate :: typeCode where "tcDate \<equiv> 0x0E"
abbreviation tcTime :: typeCode where "tcTime \<equiv> 0x0F"
abbreviation tcTimestamp :: typeCode where "tcTimestamp \<equiv> 0x10"
abbreviation tcTimetz :: typeCode where "tcTimetz \<equiv> 0x11"
abbreviation tcTimeltz :: typeCode where "tcTimeltz \<equiv> 0x12"
abbreviation tcTimestampTz :: typeCode where "tcTimestampTz \<equiv> 0x13"
abbreviation tcTimestampLtz :: typeCode where "tcTimestampLtz \<equiv> 0x14"
abbreviation tcIntervalYm :: typeCode where "tcIntervalYm \<equiv> 0x15"
abbreviation tcIntervalDs :: typeCode where "tcIntervalDs \<equiv> 0x16"
abbreviation tcRowid :: typeCode where "tcRowid \<equiv> 0x17"
abbreviation tcUrowid :: typeCode where "tcUrowid \<equiv> 0x18"
abbreviation tcClob :: typeCode where "tcClob \<equiv> 0x19"
abbreviation tcNclob :: typeCode where "tcNclob \<equiv> 0x1A"
abbreviation tcBlob :: typeCode where "tcBlob \<equiv> 0x1B"
abbreviation tcBoolean :: typeCode where "tcBoolean \<equiv> 0x1C"
abbreviation tcString :: typeCode where "tcString \<equiv> 0x1D"
abbreviation tcNstring :: typeCode where "tcNstring \<equiv> 0x1E"
abbreviation tcLocator :: typeCode where "tcLocator \<equiv> 0x1F"
abbreviation tcNlocator :: typeCode where "tcNlocator \<equiv> 0x20"
abbreviation tcBstring :: typeCode where "tcBstring \<equiv> 0x21"
abbreviation tcDecimalDigitArray :: typeCode where "tcDecimalDigitArray \<equiv> 0x22"
abbreviation tcVarchar2 :: typeCode where "tcVarchar2 \<equiv> 0x23"
abbreviation tcTable :: typeCode where "tcTable \<equiv> 0x2D"
abbreviation tcSmalldecimal :: typeCode where "tcSmalldecimal \<equiv> 0x2F"
abbreviation tcAbapstream :: typeCode where "tcAbapstream \<equiv> 0x30"
abbreviation tcAbapstruct :: typeCode where "tcAbapstruct \<equiv> 0x31"
abbreviation tcAarray :: typeCode where "tcAarray \<equiv> 0x32"
abbreviation tcText :: typeCode where "tcText \<equiv> 0x33"
abbreviation tcShorttext :: typeCode where "tcShorttext \<equiv> 0x34"
abbreviation tcBintext :: typeCode where "tcBintext \<equiv> 0x35"
abbreviation tcAlphanum :: typeCode where "tcAlphanum \<equiv> 0x37"
abbreviation tcLongdate :: typeCode where "tcLongdate \<equiv> 0x3D"
abbreviation tcSeconddate :: typeCode where "tcSeconddate \<equiv> 0x3E"
abbreviation tcDaydate :: typeCode where "tcDaydate \<equiv> 0x3F"
abbreviation tcSecondtime :: typeCode where "tcSecondtime \<equiv> 0x40"
abbreviation tcClocator :: typeCode where "tcClocator \<equiv> 0x46"
abbreviation tcBlobDiskReserved :: typeCode where "tcBlobDiskReserved \<equiv> 0x47"
abbreviation tcClobDiskReserved :: typeCode where "tcClobDiskReserved \<equiv> 0x48"
abbreviation tcNclobDiskReserved :: typeCode where "tcNclobDiskReserved \<equiv> 0x49"
abbreviation tcStGeometry :: typeCode where "tcStGeometry \<equiv> 0x4A"
abbreviation tcStPoint :: typeCode where "tcStPoint \<equiv> 0x4B"
abbreviation tcFixed16 :: typeCode where "tcFixed16 \<equiv> 0x4C"
abbreviation tcAbapItab :: typeCode where "tcAbapItab \<equiv> 0x4D"
abbreviation tcRecordRowStore :: typeCode where "tcRecordRowStore \<equiv> 0x4E"
abbreviation tcRecordColumnStore :: typeCode where "tcRecordColumnStore \<equiv> 0x4F"
abbreviation tcFixed8 :: typeCode where "tcFixed8 \<equiv> 0x51"
abbreviation tcFixed12 :: typeCode where "tcFixed12 \<equiv> 0x52"
abbreviation tcCiphertext :: typeCode where "tcCiphertext \<equiv> 0x5A"
abbreviation tcTableRef :: typeCode where "tcTableRef \<equiv> 0x7E"
abbreviation tcTableRows :: typeCode where "tcTableRows \<equiv> 0x7F"

text \<open>
  \<^verbatim>\<open>encTc\<close>: the switch sends \<^verbatim>\<open>tcText\<close>, \<^verbatim>\<open>tcBintext\<close> and \<^verbatim>\<open>tcLocator\<close> to
  \<^verbatim>\<open>tcNclob\<close>; the default branch returns the receiver.
\<close>

definition encTc :: "typeCode \<Rightarrow> typeCode" where
  "encTc tc = (if tc = tcText \<or> tc = tcBintext \<or> tc = tcLocator then tcNclob else tc)"

text \<open>
  Modelled from the spec: the enumeration \<^verbatim>\<open>DataType\<close> is declared in another file of
  the package; its members are the canonical types the specification lists (Tinyint, Smallint,
  Integer, Bigint, Real, Double, Decimal, String, Bytes, Boolean, Time, Lob, Rows), under
  the names \<^verbatim>\<open>dataTypeMap\<close> uses.
\<close>

datatype DataType =
    DtTinyint | DtSmallint | DtInteger | DtBigint | DtReal | DtDouble | DtDecimal
  | DtString | DtBytes | DtBoolean | DtTime | DtLob | DtRows

text \<open>
  \<^verbatim>\<open>dataTypeMap\<close> is a map literal; it is kept as the list of its entries in source
  order, and looked up with \<^const>\<open>map_of\<close>.
\<close>

definition dataTypeMap :: "(typeCode \<times> DataType) list" where
  "dataTypeMap =
    [(tcTinyint, DtTinyint),
     (tcSmallint, DtSmallint),
     (tcInteger, DtInteger),
     (tcBigint, DtBigint),
     (tcReal, DtReal),
     (tcDouble, DtDouble),
     (tcDate, DtTime),
     (tcTime, DtTime),
     (tcTimestamp, DtTime),
     (tcLongdate, DtTime),
     (tcSeconddate, DtTime),
     (tcDaydate, DtTime),
     (tcSecondtime, DtTime),
     (tcDecimal, DtDecimal),
     (tcChar, DtString),
     (tcVarchar, DtString),
     (tcString, DtString),
     (tcAlphanum, DtString),
     (tcNchar, DtString),
     (tcNvarchar, DtString),
     (tcNstring, DtString),
     (tcShorttext, DtString),
     (tcBinary, DtBytes),
     (tcVarbinary, DtBytes),
     (tcBlob, DtLob),
     (tcClob, DtLob),
     (tcNclob, DtLob),
     (tcText, DtLob),
     (tcBintext, DtLob),
     (tcTableRef, DtString),
     (tcTableRows, DtRows)]"

text \<open>A Go panic is a value of its own: the panicking branch of a function returns it on the left.\<close>

datatype panic = MissingDataType typeCode | EmptyQueryResultSet | IndexOutOfRange

text \<open>
  \<^verbatim>\<open>dataType\<close>: \<^verbatim>\<open>dt, ok := dataTypeMap[tc]\<close>, a panic when \<^verbatim>\<open>ok\<close> is false, \<^verbatim>\<open>dt\<close>
  otherwise.
\<close>

definition dataType :: "typeCode \<Rightarrow> panic + DataType" where
  "dataType tc =
     (case map_of dataTypeMap tc of
        None \<Rightarrow> Inl (MissingDataType tc)
      | Some dt \<Rightarrow> Inr dt)"

section \<open>Query result sets (package protocol: queryResultSet and its cache)\<close>

subsection \<open>What the session and the row results provide\<close>

text \<open>
  The errors \<^verbatim>\<open>Next\<close>, \<^verbatim>\<open>Close\<close> and \<^verbatim>\<open>NextResultSet\<close> return: \<^verbatim>\<open>io.EOF\<close>,
  \<^verbatim>\<open>driver.ErrBadConn\<close>, and whatever error value a session request hands back.
\<close>

datatype error = EOF | ErrBadConn | SessionError nat

text \<open>A \<^verbatim>\<open>*Session\<close> is compared by identity (\<^verbatim>\<open>qrs.s == s\<close>): a reference is a number.\<close>

type_synonym sessionRef = nat

text \<open>
  Modelled from the spec: the values of a row. Their types are declared in other files of
  the package; what \<^verbatim>\<open>Next\<close> needs to know of a value is whether it is a \<^verbatim>\<open>sessionSetter\<close>
  (a large-object value, which is bound to the owning session) or not.
\<close>

datatype fieldValue = Plain nat | LobValue nat "sessionRef option"

fun setSession :: "sessionRef \<Rightarrow> fieldValue \<Rightarrow> fieldValue" where
  "setSession sp (Plain v) = Plain v"
| "setSession sp (LobValue l b) = LobValue l (Some sp)"

type_synonym row = "fieldValue list"

text \<open>
  Modelled from the spec: \<^verbatim>\<open>rowsResult\<close> is an interface declared in another file
  of the package. The record holds what its methods report: \<^verbatim>\<open>rsID()\<close>, \<^verbatim>\<open>columns()\<close>, the rows
  behind \<^verbatim>\<open>numRow()\<close> and \<^verbatim>\<open>copyRow()\<close> (an ordered, finite sequence), and the two
  attributes \<^verbatim>\<open>closed()\<close> and \<^verbatim>\<open>lastPacket()\<close>, which the source reads separately.
\<close>

record rowsResult =
  rsID :: "64 word"
  columns :: "string list"
  fieldValues :: "row list"
  closed :: bool
  lastPacket :: bool

definition numRow :: "rowsResult \<Rightarrow> int" where
  "numRow res = int (length (fieldValues res))"

text \<open>\<^verbatim>\<open>copyRow(idx, dest)\<close> reads row \<^verbatim>\<open>idx\<close>; an index outside the rows is a run-time panic.\<close>

definition copyRow :: "rowsResult \<Rightarrow> int \<Rightarrow> panic + row" where
  "copyRow res i =
     (if 0 \<le> i \<and> i < numRow res then Inr (fieldValues res ! nat i) else Inl IndexOutOfRange)"

text \<open>The requests a cursor sends to its session, recorded in the order they are issued.\<close>

datatype call = CallFetchNext "64 word" | CallCloseResultsetID "64 word"

text \<open>
  The \<^verbatim>\<open>Session\<close> methods the cursor calls are declared in another file of the
  package; they are parameters of the model, over an arbitrary type of session states. \<^verbatim>\<open>fetchNext\<close>
  receives the row result and changes it in place, so it returns the row result as it
  leaves it, together with the error (if any) and the new session state.
\<close>

record 'st sessionOps =
  IsBad :: "'st \<Rightarrow> bool"
  fetchNext :: "'st \<Rightarrow> rowsResult \<Rightarrow> error option \<times> rowsResult \<times> 'st"
  CloseResultsetID :: "'st \<Rightarrow> 64 word \<Rightarrow> error option \<times> 'st"

subsection \<open>queryResultSet\<close>

text \<open>
  The struct of the source. \<^verbatim>\<open>idx\<close> and \<^verbatim>\<open>pos\<close> are Go \<^verbatim>\<open>int\<close>s; both only ever
  count up from 0 and stay below the length of a slice, so they are integers here and
  the wrap-around of \<^verbatim>\<open>pos++\<close> is out of reach.
\<close>

record queryResultSet =
  s :: sessionRef
  rrs :: "rowsResult list"
  rr :: rowsResult
  idx :: int
  pos :: int
  lastErr :: "error option"

definition newQueryResultSet :: "sessionRef \<Rightarrow> rowsResult list \<Rightarrow> panic + queryResultSet" where
  "newQueryResultSet sp results =
     (case results of
        [] \<Rightarrow> Inl EmptyQueryResultSet
      | first # rest \<Rightarrow>
          Inr \<lparr>s = sp, rrs = results, rr = first, idx = 0, pos = 0, lastErr = None\<rparr>)"

definition Columns :: "queryResultSet \<Rightarrow> string list" where
  "Columns r = columns (rr r)"

text \<open>
  \<^verbatim>\<open>r.rr\<close> and \<^verbatim>\<open>r.rrs[r.idx]\<close> are one object, so what \<^verbatim>\<open>fetchNext\<close> writes into
  \<^verbatim>\<open>r.rr\<close> is seen through both.
\<close>

definition storeRR :: "queryResultSet \<Rightarrow> rowsResult \<Rightarrow> queryResultSet" where
  "storeRR r res =
     r\<lparr>rr := res,
       rrs := (if 0 \<le> idx r \<and> idx r < int (length (rrs r)) then (rrs r)[nat (idx r) := res] else rrs r)\<rparr>"

text \<open>
  What a call of \<^verbatim>\<open>Next\<close> gives back: \<^verbatim>\<open>nil\<close> with the row in \<^verbatim>\<open>dest\<close>, an error, or
  a panic.
\<close>

datatype nextResult = RowCopied row | Returned error | Panicked panic

text \<open>
  The tail of \<^verbatim>\<open>Next\<close>: \<^verbatim>\<open>copyRow(r.pos, dest)\<close>, \<^verbatim>\<open>r.pos++\<close>, then every value of
  \<^verbatim>\<open>dest\<close> that is a \<^verbatim>\<open>sessionSetter\<close> is bound to \<^verbatim>\<open>r.s\<close>.
\<close>

definition copyAndAdvance ::
  "call list \<Rightarrow> queryResultSet \<Rightarrow> 'st \<Rightarrow> nextResult \<times> call list \<times> queryResultSet \<times> 'st" where
  "copyAndAdvance cs r st =
     (case copyRow (rr r) (pos r) of
        Inl p \<Rightarrow> (Panicked p, cs, r, st)
      | Inr dest \<Rightarrow> (RowCopied (map (setSession (s r)) dest), cs, r\<lparr>pos := pos r + 1\<rparr>, st))"

text \<open>
  \<^verbatim>\<open>Next\<close>, branch by branch as in the source. The result is the returned value, the
  session requests issued by this call, the cursor and the session state afterwards.
\<close>

definition Next ::
  "'st sessionOps \<Rightarrow> queryResultSet \<Rightarrow> 'st \<Rightarrow> nextResult \<times> call list \<times> queryResultSet \<times> 'st" where
  "Next ops r st =
     (if IsBad ops st then (Returned ErrBadConn, [], r, st)
      else if pos r \<ge> numRow (rr r) then
        (if lastPacket (rr r) then (Returned EOF, [], r, st)
         else
           (case fetchNext ops st (rr r) of
              (Some err, res, st') \<Rightarrow>
                (Returned err, [CallFetchNext (rsID (rr r))], (storeRR r res)\<lparr>lastErr := Some err\<rparr>, st')
            | (None, res, st') \<Rightarrow>
                if numRow res = 0
                then (Returned EOF, [CallFetchNext (rsID (rr r))], storeRR r res, st')
                else copyAndAdvance [CallFetchNext (rsID (rr r))] ((storeRR r res)\<lparr>pos := 0\<rparr>) st'))
      else copyAndAdvance [] r st)"

text \<open>
  \<^verbatim>\<open>Close\<close>: the stored error if there is one; else the release request for a row
  result that is not closed; else nothing. The cursor itself is never written.
\<close>

definition Close ::
  "'st sessionOps \<Rightarrow> queryResultSet \<Rightarrow> 'st \<Rightarrow> error option \<times> call list \<times> queryResultSet \<times> 'st" where
  "Close ops r st =
     (case lastErr r of
        Some err \<Rightarrow> (Some err, [], r, st)
      | None \<Rightarrow>
          if \<not> closed (rr r)
          then (case CloseResultsetID ops st (rsID (rr r)) of
                  (e, st') \<Rightarrow> (e, [CallCloseResultsetID (rsID (rr r))], r, st'))
          else (None, [], r, st))"

definition HasNextResultSet :: "queryResultSet \<Rightarrow> bool" where
  "HasNextResultSet r = (idx r + 1 < int (length (rrs r)))"

text \<open>
  \<^verbatim>\<open>NextResultSet\<close>: \<^verbatim>\<open>io.EOF\<close> when there is no further result set; else the stored
  error is cleared, \<^verbatim>\<open>idx\<close> is incremented and \<^verbatim>\<open>rr\<close> becomes \<^verbatim>\<open>rrs[idx]\<close> (an
  index below 0 would panic). \<^verbatim>\<open>pos\<close> is not assigned.
\<close>

definition NextResultSet :: "queryResultSet \<Rightarrow> panic + (error option \<times> queryResultSet)" where
  "NextResultSet r =
     (if \<not> HasNextResultSet r then Inr (Some EOF, r)
      else if idx r + 1 < 0 then Inl IndexOutOfRange
      else Inr (None, r\<lparr>lastErr := None, idx := idx r + 1, rr := rrs r ! nat (idx r + 1)\<rparr>))"

text \<open>A caller's loop: \<^verbatim>\<open>n\<close> calls of \<^verbatim>\<open>Next\<close> in a row, with everything they returned and issued.\<close>

fun NextN ::
  "'st sessionOps \<Rightarrow> nat \<Rightarrow> queryResultSet \<Rightarrow> 'st \<Rightarrow> nextResult list \<times> call list \<times> queryResultSet \<times> 'st" where
  "NextN ops 0 r st = ([], [], r, st)"
| "NextN ops (Suc n) r st =
     (case Next ops r st of
        (res, cs, r', st') \<Rightarrow>
          (case NextN ops n r' st' of
             (ress, css, r'', st'') \<Rightarrow> (res # ress, cs @ css, r'', st'')))"

subsection \<open>queryResultSetCache\<close>

text \<open>
  The cache is a Go map from \<^verbatim>\<open>uint64\<close> to cursors, used under a lock; one operation
  at a time is modelled. \<^verbatim>\<open>set\<close> stores and returns the identifier, \<^verbatim>\<open>Get\<close> is the
  two-valued map read, \<^verbatim>\<open>cleanup\<close> deletes every entry whose cursor belongs to the
  session.
\<close>

type_synonym queryResultSetCache = "64 word \<rightharpoonup> queryResultSet"

definition newQueryResultSetCache :: queryResultSetCache where
  "newQueryResultSetCache = Map.empty"

definition set_cache :: "queryResultSetCache \<Rightarrow> 64 word \<Rightarrow> queryResultSet \<Rightarrow> 64 word \<times> queryResultSetCache" where
  "set_cache c ident qrs = (ident, c(ident \<mapsto> qrs))"

definition Get :: "queryResultSetCache \<Rightarrow> 64 word \<Rightarrow> queryResultSet option \<times> bool" where
  "Get c ident = (case c ident of None \<Rightarrow> (None, False) | Some qrs \<Rightarrow> (Some qrs, True))"

definition cleanup :: "queryResultSetCache \<Rightarrow> sessionRef \<Rightarrow> queryResultSetCache" where
  "cleanup c sp =
     (\<lambda>ident. case c ident of
                 None \<Rightarrow> None
               | Some qrs \<Rightarrow> if s qrs = sp then None else Some qrs)"

subsection \<open>A scripted session\<close>

text \<open>
  A session for concrete runs: it answers the successive \<^verbatim>\<open>fetchNext\<close> requests with
  the replies of a script and acknowledges every release request.
\<close>

record scriptedSession =
  bad :: bool
  replies :: "(error option \<times> rowsResult) list"

definition scriptedOps :: "scriptedSession sessionOps" where
  "scriptedOps =
     \<lparr>IsBad = bad,
      fetchNext = (\<lambda>st res. case replies st of
                              [] \<Rightarrow> (Some (SessionError 0), res, st)
                            | (e, p) # rest \<Rightarrow> (e, p, st\<lparr>replies := rest\<rparr>)),
      CloseResultsetID = (\<lambda>st ident. (None, st))\<rparr>"

subsection \<open>Concrete result sets and cursors\<close>

fun isFetchNext :: "call \<Rightarrow> bool" where
  "isFetchNext (CallFetchNext i) = True"
| "isFetchNext (CallCloseResultsetID i) = False"

definition idleSession :: "(error option \<times> rowsResult) list \<Rightarrow> scriptedSession" where
  "idleSession script = \<lparr>bad = False, replies = script\<rparr>"

text \<open>A result set delivered in two pages: three rows, not the last packet; then two rows, the last packet, closed.\<close>

definition page1 :: rowsResult where
  "page1 = \<lparr>rsID = 7, columns = [''X'', ''I''],
            fieldValues = [[Plain 10, Plain 0], [Plain 11, Plain 1], [Plain 12, Plain 2]],
            closed = False, lastPacket = False\<rparr>"

definition page2 :: rowsResult where
  "page2 = \<lparr>rsID = 7, columns = [''X'', ''I''],
            fieldValues = [[Plain 13, Plain 3], [Plain 14, Plain 4]],
            closed = True, lastPacket = True\<rparr>"

text \<open>The same last page, delivered without the attribute that the result set is closed.\<close>

definition page2open :: rowsResult where
  "page2open = \<lparr>rsID = 7, columns = [''X'', ''I''],
                fieldValues = [[Plain 13, Plain 3], [Plain 14, Plain 4]],
                closed = False, lastPacket = True\<rparr>"

text \<open>What a failed \<^verbatim>\<open>fetchNext\<close> leaves behind (``fieldValues and attrs are nil''), and an empty page.\<close>

definition emptyPage :: rowsResult where
  "emptyPage = \<lparr>rsID = 7, columns = [''X'', ''I''], fieldValues = [], closed = False, lastPacket = False\<rparr>"

definition freshCursor :: queryResultSet where
  "freshCursor = \<lparr>s = 1, rrs = [page1], rr = page1, idx = 0, pos = 0, lastErr = None\<rparr>"

definition cursorAt3 :: queryResultSet where
  "cursorAt3 = \<lparr>s = 1, rrs = [page1], rr = page1, idx = 0, pos = 3, lastErr = None\<rparr>"

text \<open>Two complete result sets of one call, of three rows and of two rows.\<close>

definition setA :: rowsResult where
  "setA = \<lparr>rsID = 7, columns = [''X'', ''I''],
           fieldValues = [[Plain 10, Plain 0], [Plain 11, Plain 1], [Plain 12, Plain 2]],
           closed = True, lastPacket = True\<rparr>"

definition setB :: rowsResult where
  "setB = \<lparr>rsID = 8, columns = [''Y''],
           fieldValues = [[Plain 20], [Plain 21]],
           closed = True, lastPacket = True\<rparr>"

definition twoSets :: "int \<Rightarrow> int \<Rightarrow> rowsResult \<Rightarrow> queryResultSet" where
  "twoSets i n res = \<lparr>s = 1, rrs = [setA, setB], rr = res, idx = i, pos = n, lastErr = None\<rparr>"

text \<open>A cursor over a first result set that is still being paged (\<^verbatim>\<open>first\<close>) and the complete result set \<^verbatim>\<open>setB\<close>.\<close>

definition pagedThenB :: "rowsResult \<Rightarrow> rowsResult \<Rightarrow> int \<Rightarrow> int \<Rightarrow> error option \<Rightarrow> queryResultSet" where
  "pagedThenB first cur i n e = \<lparr>s = 1, rrs = [first, setB], rr = cur, idx = i, pos = n, lastErr = e\<rparr>"

definition otherCursor :: queryResultSet where
  "otherCursor = \<lparr>s = 2, rrs = [setB], rr = setB, idx = 0, pos = 0, lastErr = None\<rparr>"

definition cacheAB :: queryResultSetCache where
  "cacheAB = snd (set_cache (snd (set_cache newQueryResultSetCache 9 otherCursor)) 7 freshCursor)"

section \<open>Rounding of temporal values on encoding\<close>











section \<open>Properties of the type codes\<close>

lemma dataTypeMap_distinct: "distinct (map fst dataTypeMap)"
  by (simp add: dataTypeMap_def)

lemma dataType_entry: "(tc, dt) \<in> set dataTypeMap \<Longrightarrow> dataType tc = Inr dt"
  using dataTypeMap_distinct by (simp add: dataType_def)

lemma dataType_unregistered: "tc \<notin> fst ` set dataTypeMap \<Longrightarrow> dataType tc = Inl (MissingDataType tc)"
proof -
  assume "tc \<notin> fst ` set dataTypeMap"
  then have "map_of dataTypeMap tc = None" by (rule map_of_eq_None_iff [THEN iffD2])
  then show ?thesis by (simp add: dataType_def)
qed

text \<open>
  Claim C1. The registry is the key set of \<^verbatim>\<open>dataTypeMap\<close>. No key occurs twice in the
  literal; a type code with an entry is classified as the data type of that entry and as
  no other; a type code without an entry makes \<^verbatim>\<open>dataType\<close> panic, so that no data
  type at all comes back for it.
\<close>

theorem dataType_registry:
  "distinct (map fst dataTypeMap)
   \<and> (\<forall>dt. (tc, dt) \<in> set dataTypeMap \<longrightarrow> dataType tc = Inr dt \<and> (\<forall>dt'. dataType tc = Inr dt' \<longrightarrow> dt' = dt))
   \<and> (tc \<in> fst ` set dataTypeMap \<longrightarrow> (\<exists>!dt. dataType tc = Inr dt))
   \<and> (tc \<notin> fst ` set dataTypeMap \<longrightarrow> dataType tc = Inl (MissingDataType tc) \<and> (\<forall>dt. dataType tc \<noteq> Inr dt))"
proof (intro conjI allI impI)
  show "distinct (map fst dataTypeMap)" by (rule dataTypeMap_distinct)
next
  fix dt assume "(tc, dt) \<in> set dataTypeMap"
  then show "dataType tc = Inr dt" by (rule dataType_entry)
next
  fix dt dt' assume "(tc, dt) \<in> set dataTypeMap" and "dataType tc = Inr dt'"
  then show "dt' = dt" using dataType_entry by fastforce
next
  assume "tc \<in> fst ` set dataTypeMap"
  then obtain dt where "(tc, dt) \<in> set dataTypeMap" by auto
  then have "dataType tc = Inr dt" by (rule dataType_entry)
  then show "\<exists>!dt. dataType tc = Inr dt" by auto
next
  assume "tc \<notin> fst ` set dataTypeMap"
  then show "dataType tc = Inl (MissingDataType tc)" by (rule dataType_unregistered)
next
  fix dt assume "tc \<notin> fst ` set dataTypeMap"
  then have "dataType tc = Inl (MissingDataType tc)" by (rule dataType_unregistered)
  then show "dataType tc \<noteq> Inr dt" by simp
qed

theorem dataType_registry_witness:
  "(tcDaydate, DtTime) \<in> set dataTypeMap \<and> dataType tcDaydate = Inr DtTime
   \<and> tcBoolean \<notin> fst ` set dataTypeMap \<and> dataType tcBoolean = Inl (MissingDataType tcBoolean)"
proof -
  have a: "(tcDaydate, DtTime) \<in> set dataTypeMap" by (simp add: dataTypeMap_def)
  have b: "tcBoolean \<notin> fst ` set dataTypeMap" by (simp add: dataTypeMap_def)
  from a b dataType_registry [of tcDaydate] dataType_registry [of tcBoolean]
  show ?thesis by blast
qed

text \<open>
  Claim C7. \<^verbatim>\<open>encTc\<close> sends each of \<^verbatim>\<open>tcText\<close>, \<^verbatim>\<open>tcBintext\<close> and \<^verbatim>\<open>tcLocator\<close> to
  \<^verbatim>\<open>tcNclob\<close>, returns every other type code unchanged, and applying it twice gives
  what applying it once gives.
\<close>

theorem encTc_alias_idempotent:
  "(tc \<in> {tcText, tcBintext, tcLocator} \<longrightarrow> encTc tc = tcNclob)
   \<and> (tc \<notin> {tcText, tcBintext, tcLocator} \<longrightarrow> encTc tc = tc)
   \<and> encTc (encTc tc) = encTc tc"
  by (simp add: encTc_def)

theorem encTc_alias_idempotent_witness:
  "tcBintext \<in> {tcText, tcBintext, tcLocator} \<and> encTc tcBintext = tcNclob
   \<and> tcVarchar \<notin> {tcText, tcBintext, tcLocator} \<and> encTc tcVarchar = tcVarchar
   \<and> encTc (encTc tcLocator) = encTc tcLocator"
proof -
  have a: "tcBintext \<in> {tcText, tcBintext, tcLocator}" by simp
  have b: "tcVarchar \<notin> {tcText, tcBintext, tcLocator}" by simp
  from a b encTc_alias_idempotent [of tcBintext] encTc_alias_idempotent [of tcVarchar]
    encTc_alias_idempotent [of tcLocator]
  show ?thesis by blast
qed

section \<open>Properties of the cursor\<close>

subsection \<open>One call of Next, branch by branch\<close>

lemma Next_calls:
  "fst (snd (Next ops r st)) =
     (if \<not> IsBad ops st \<and> numRow (rr r) \<le> pos r \<and> \<not> lastPacket (rr r)
      then [CallFetchNext (rsID (rr r))] else [])"
  by (simp add: Next_def copyAndAdvance_def split: prod.splits option.splits sum.splits)

lemma Next_row:
  "\<not> IsBad ops st \<Longrightarrow> 0 \<le> pos r \<Longrightarrow> pos r < numRow (rr r) \<Longrightarrow>
   Next ops r st = (RowCopied (map (setSession (s r)) (fieldValues (rr r) ! nat (pos r))), [], r\<lparr>pos := pos r + 1\<rparr>, st)"
  by (simp add: Next_def copyAndAdvance_def copyRow_def)

lemma Next_EOF:
  "\<not> IsBad ops st \<Longrightarrow> numRow (rr r) \<le> pos r \<Longrightarrow> lastPacket (rr r) \<Longrightarrow>
   Next ops r st = (Returned EOF, [], r, st)"
  by (simp add: Next_def)

lemma Next_fetch_rows:
  "\<not> IsBad ops st \<Longrightarrow> numRow (rr r) \<le> pos r \<Longrightarrow> \<not> lastPacket (rr r) \<Longrightarrow>
   fetchNext ops st (rr r) = (None, res, st') \<Longrightarrow> 0 < numRow res \<Longrightarrow>
   Next ops r st = (RowCopied (map (setSession (s r)) (fieldValues res ! 0)), [CallFetchNext (rsID (rr r))],
                    (storeRR r res)\<lparr>pos := 1\<rparr>, st')"
  by (simp add: Next_def copyAndAdvance_def copyRow_def storeRR_def)

lemma Next_fetch_failed:
  "\<not> IsBad ops st \<Longrightarrow> numRow (rr r) \<le> pos r \<Longrightarrow> \<not> lastPacket (rr r) \<Longrightarrow>
   fetchNext ops st (rr r) = (Some err, res, st') \<Longrightarrow>
   Next ops r st = (Returned err, [CallFetchNext (rsID (rr r))], (storeRR r res)\<lparr>lastErr := Some err\<rparr>, st')"
  by (simp add: Next_def)

lemma Next_ignores_lastErr:
  "fst (Next ops (r\<lparr>lastErr := x\<rparr>) st) = fst (Next ops r st)
   \<and> fst (snd (Next ops (r\<lparr>lastErr := x\<rparr>) st)) = fst (snd (Next ops r st))
   \<and> snd (snd (snd (Next ops (r\<lparr>lastErr := x\<rparr>) st))) = snd (snd (snd (Next ops r st)))"
  by (simp add: Next_def copyAndAdvance_def storeRR_def split: prod.splits option.splits sum.splits)

subsection \<open>Paging through a result set\<close>

text \<open>
  Claim C2, as stated, fails in its last part. The second page is the last packet but does
  not carry the attribute that the result set is closed. Six calls of \<^verbatim>\<open>Next\<close> return
  the five rows in order and then \<^verbatim>\<open>io.EOF\<close>, with one \<^verbatim>\<open>fetchNext\<close> request; the
  \<^verbatim>\<open>Close\<close> that follows the full drain sends the release request to the session.
\<close>

theorem drained_not_closed_releases:
  "NextN scriptedOps 6 freshCursor (idleSession [(None, page2open)])
     = ([RowCopied [Plain 10, Plain 0], RowCopied [Plain 11, Plain 1], RowCopied [Plain 12, Plain 2],
         RowCopied [Plain 13, Plain 3], RowCopied [Plain 14, Plain 4], Returned EOF],
        [CallFetchNext 7],
        \<lparr>s = 1, rrs = [page2open], rr = page2open, idx = 0, pos = 2, lastErr = None\<rparr>, idleSession [])
   \<and> Close scriptedOps \<lparr>s = 1, rrs = [page2open], rr = page2open, idx = 0, pos = 2, lastErr = None\<rparr> (idleSession [])
     = (None, [CallCloseResultsetID 7],
        \<lparr>s = 1, rrs = [page2open], rr = page2open, idx = 0, pos = 2, lastErr = None\<rparr>, idleSession [])"
  by (simp add: numeral_eq_Suc Next_def Close_def copyAndAdvance_def copyRow_def numRow_def storeRR_def
      scriptedOps_def idleSession_def freshCursor_def page1_def page2open_def)

text \<open>
  Claim C2, amended. A cursor is built over a first page of three rows that is not the last
  packet; the session is in good state and answers the fetch with a page of two rows that
  is the last packet. Then six calls of \<^verbatim>\<open>Next\<close> return the three rows of the first page
  and the two rows of the second in their order (each bound to the cursor's session) and
  then \<^verbatim>\<open>io.EOF\<close>, and together they issue exactly one \<^verbatim>\<open>fetchNext\<close> request.
  \<^verbatim>\<open>Close\<close> on the drained cursor sends no request exactly when the last page reports
  the result set closed, and then returns \<^verbatim>\<open>nil\<close>; otherwise it sends one release
  request for the result set.
\<close>

theorem two_page_drain:
  assumes p1: "fieldValues p1 = [a, b, c]" "\<not> lastPacket p1"
    and p2: "fieldValues p2 = [d, e]" "lastPacket p2"
    and s0: "\<not> IsBad ops st0" "fetchNext ops st0 p1 = (None, p2, st1)"
    and s1: "\<not> IsBad ops st1"
  shows "newQueryResultSet sp [p1] = Inr \<lparr>s = sp, rrs = [p1], rr = p1, idx = 0, pos = 0, lastErr = None\<rparr>
    \<and> NextN ops 6 \<lparr>s = sp, rrs = [p1], rr = p1, idx = 0, pos = 0, lastErr = None\<rparr> st0
        = ([RowCopied (map (setSession sp) a), RowCopied (map (setSession sp) b),
            RowCopied (map (setSession sp) c), RowCopied (map (setSession sp) d),
            RowCopied (map (setSession sp) e), Returned EOF],
           [CallFetchNext (rsID p1)],
           \<lparr>s = sp, rrs = [p2], rr = p2, idx = 0, pos = 2, lastErr = None\<rparr>, st1)
    \<and> fst (snd (Close ops \<lparr>s = sp, rrs = [p2], rr = p2, idx = 0, pos = 2, lastErr = None\<rparr> st1))
        = (if closed p2 then [] else [CallCloseResultsetID (rsID p2)])
    \<and> (closed p2 \<longrightarrow>
         Close ops \<lparr>s = sp, rrs = [p2], rr = p2, idx = 0, pos = 2, lastErr = None\<rparr> st1
           = (None, [], \<lparr>s = sp, rrs = [p2], rr = p2, idx = 0, pos = 2, lastErr = None\<rparr>, st1))"
proof -
  let ?c = "\<lambda>p n. \<lparr>s = sp, rrs = [p], rr = p, idx = 0, pos = n, lastErr = None\<rparr>"
  have n1: "Next ops (?c p1 0) st0 = (RowCopied (map (setSession sp) a), [], ?c p1 1, st0)"
    using p1 s0 by (simp add: Next_row numRow_def)
  have n2: "Next ops (?c p1 1) st0 = (RowCopied (map (setSession sp) b), [], ?c p1 2, st0)"
    using p1 s0 by (simp add: Next_row numRow_def)
  have n3: "Next ops (?c p1 2) st0 = (RowCopied (map (setSession sp) c), [], ?c p1 3, st0)"
    using p1 s0 by (simp add: Next_row numRow_def)
  have n4: "Next ops (?c p1 3) st0 = (RowCopied (map (setSession sp) d), [CallFetchNext (rsID p1)], ?c p2 1, st1)"
    using p1 p2 s0 by (simp add: Next_fetch_rows [where res = p2 and st' = st1] numRow_def storeRR_def)
  have n5: "Next ops (?c p2 1) st1 = (RowCopied (map (setSession sp) e), [], ?c p2 2, st1)"
    using p2 s1 by (simp add: Next_row numRow_def)
  have n6: "Next ops (?c p2 2) st1 = (Returned EOF, [], ?c p2 2, st1)"
    using p2 s1 by (simp add: Next_EOF numRow_def)
  have run: "NextN ops 6 (?c p1 0) st0
        = ([RowCopied (map (setSession sp) a), RowCopied (map (setSession sp) b),
            RowCopied (map (setSession sp) c), RowCopied (map (setSession sp) d),
            RowCopied (map (setSession sp) e), Returned EOF],
           [CallFetchNext (rsID p1)], ?c p2 2, st1)"
    by (simp add: numeral_eq_Suc n1 n2 n3 n4 n5 n6)
  have calls: "fst (snd (Close ops (?c p2 2) st1)) = (if closed p2 then [] else [CallCloseResultsetID (rsID p2)])"
    by (simp add: Close_def split: prod.splits)
  have cl: "closed p2 \<longrightarrow> Close ops (?c p2 2) st1 = (None, [], ?c p2 2, st1)"
    by (simp add: Close_def)
  show ?thesis using run calls cl by (simp add: newQueryResultSet_def)
qed

theorem two_page_drain_witness:
  "newQueryResultSet 1 [page1] = Inr freshCursor
   \<and> NextN scriptedOps 6 freshCursor (idleSession [(None, page2)])
     = ([RowCopied [Plain 10, Plain 0], RowCopied [Plain 11, Plain 1], RowCopied [Plain 12, Plain 2],
         RowCopied [Plain 13, Plain 3], RowCopied [Plain 14, Plain 4], Returned EOF],
        [CallFetchNext 7],
        \<lparr>s = 1, rrs = [page2], rr = page2, idx = 0, pos = 2, lastErr = None\<rparr>, idleSession [])
   \<and> Close scriptedOps \<lparr>s = 1, rrs = [page2], rr = page2, idx = 0, pos = 2, lastErr = None\<rparr> (idleSession [])
     = (None, [], \<lparr>s = 1, rrs = [page2], rr = page2, idx = 0, pos = 2, lastErr = None\<rparr>, idleSession [])"
proof -
  have a: "fieldValues page1 = [[Plain 10, Plain 0], [Plain 11, Plain 1], [Plain 12, Plain 2]]" "\<not> lastPacket page1"
    by (simp_all add: page1_def)
  have b: "fieldValues page2 = [[Plain 13, Plain 3], [Plain 14, Plain 4]]" "lastPacket page2"
    by (simp_all add: page2_def)
  have c: "\<not> IsBad scriptedOps (idleSession [(None, page2)])"
    "fetchNext scriptedOps (idleSession [(None, page2)]) page1 = (None, page2, idleSession [])"
    "\<not> IsBad scriptedOps (idleSession [])"
    by (simp_all add: scriptedOps_def idleSession_def)
  have d: "rsID page1 = 7" "closed page2" by (simp_all add: page1_def page2_def)
  from two_page_drain [OF a b c, of 1] d show ?thesis by (simp add: freshCursor_def)
qed

text \<open>
  Claim C8. One call of \<^verbatim>\<open>Next\<close> issues at most one \<^verbatim>\<open>fetchNext\<close> request; at an
  exhausted page that is not the last packet (and with a session in good state) it issues
  exactly one; and when that fetch succeeds with a page of no rows the same call returns
  \<^verbatim>\<open>io.EOF\<close>, with the fetched page stored, instead of fetching again. \<^verbatim>\<open>Next\<close>
  has no loop over fetches: it is a function without recursion, whose value is determined
  by at most one answer of the session.
\<close>

theorem Next_single_fetch:
  "length (filter isFetchNext (fst (snd (Next ops r st)))) \<le> 1
   \<and> (\<not> IsBad ops st \<and> numRow (rr r) \<le> pos r \<and> \<not> lastPacket (rr r)
        \<longrightarrow> fst (snd (Next ops r st)) = [CallFetchNext (rsID (rr r))])
   \<and> (\<not> IsBad ops st \<and> numRow (rr r) \<le> pos r \<and> \<not> lastPacket (rr r)
        \<and> fetchNext ops st (rr r) = (None, res, st') \<and> numRow res = 0
        \<longrightarrow> Next ops r st = (Returned EOF, [CallFetchNext (rsID (rr r))], storeRR r res, st'))"
  by (simp add: Next_calls) (simp add: Next_def)

theorem Next_single_fetch_witness:
  "Next scriptedOps cursorAt3 (idleSession [(None, emptyPage)])
     = (Returned EOF, [CallFetchNext 7], storeRR cursorAt3 emptyPage, idleSession [])"
proof -
  have a: "\<not> IsBad scriptedOps (idleSession [(None, emptyPage)])"
    by (simp add: scriptedOps_def idleSession_def)
  have b: "numRow (rr cursorAt3) \<le> pos cursorAt3"
    by (simp add: cursorAt3_def page1_def numRow_def)
  have c: "\<not> lastPacket (rr cursorAt3)"
    by (simp add: cursorAt3_def page1_def)
  have d: "fetchNext scriptedOps (idleSession [(None, emptyPage)]) (rr cursorAt3)
             = (None, emptyPage, idleSession [])"
    by (simp add: scriptedOps_def idleSession_def)
  have e: "numRow emptyPage = 0" by (simp add: emptyPage_def numRow_def)
  from a b c d e
    Next_single_fetch [of scriptedOps cursorAt3 "idleSession [(None, emptyPage)]" emptyPage "idleSession []"]
  show ?thesis by (simp add: cursorAt3_def page1_def)
qed

subsection \<open>A failed fetch\<close>

text \<open>
  Claim C3, as stated, fails. A cursor over \<^verbatim>\<open>page1\<close> is read to the end of the page; the
  fourth call of \<^verbatim>\<open>Next\<close> fetches, the fetch fails, and the call returns the error and
  stores it. The fifth call does not return that error: it sends a second \<^verbatim>\<open>fetchNext\<close>
  request, which succeeds, and returns the first row of the new page.
\<close>

theorem Next_after_failure_refetches:
  "NextN scriptedOps 5 freshCursor (idleSession [(Some (SessionError 1), emptyPage), (None, page2)])
     = ([RowCopied [Plain 10, Plain 0], RowCopied [Plain 11, Plain 1], RowCopied [Plain 12, Plain 2],
         Returned (SessionError 1), RowCopied [Plain 13, Plain 3]],
        [CallFetchNext 7, CallFetchNext 7],
        \<lparr>s = 1, rrs = [page2], rr = page2, idx = 0, pos = 1, lastErr = Some (SessionError 1)\<rparr>,
        idleSession [])"
  by (simp add: numeral_eq_Suc Next_def copyAndAdvance_def copyRow_def numRow_def storeRR_def
      scriptedOps_def idleSession_def freshCursor_def page1_def page2_def emptyPage_def)

text \<open>
  Claim C3, amended. When the fetch inside \<^verbatim>\<open>Next\<close> fails, that call returns the fetch
  error after exactly one request and stores the error in the cursor, and \<^verbatim>\<open>Close\<close> on
  that cursor returns the stored error without any request. \<^verbatim>\<open>Next\<close> itself never reads
  the stored error: what it returns and what it requests are the same whatever is stored;
  so a later call returns \<^verbatim>\<open>driver.ErrBadConn\<close> when the session is bad, and fetches
  again when the position has reached the row count of a page that is not the last packet.
\<close>

theorem fetch_failure_recorded:
  "(\<not> IsBad ops st \<and> numRow (rr r) \<le> pos r \<and> \<not> lastPacket (rr r)
      \<and> fetchNext ops st (rr r) = (Some err, res, st')
    \<longrightarrow> Next ops r st = (Returned err, [CallFetchNext (rsID (rr r))], (storeRR r res)\<lparr>lastErr := Some err\<rparr>, st')
        \<and> Close ops ((storeRR r res)\<lparr>lastErr := Some err\<rparr>) st2
            = (Some err, [], (storeRR r res)\<lparr>lastErr := Some err\<rparr>, st2))
   \<and> fst (Next ops (r\<lparr>lastErr := x\<rparr>) st) = fst (Next ops r st)
   \<and> fst (snd (Next ops (r\<lparr>lastErr := x\<rparr>) st)) = fst (snd (Next ops r st))
   \<and> (\<not> IsBad ops st \<and> numRow (rr r) \<le> pos r \<and> \<not> lastPacket (rr r)
        \<longrightarrow> fst (snd (Next ops (r\<lparr>lastErr := x\<rparr>) st)) = [CallFetchNext (rsID (rr r))])
   \<and> (IsBad ops st \<longrightarrow> Next ops (r\<lparr>lastErr := x\<rparr>) st = (Returned ErrBadConn, [], r\<lparr>lastErr := x\<rparr>, st))"
proof (intro conjI impI)
  assume h: "\<not> IsBad ops st \<and> numRow (rr r) \<le> pos r \<and> \<not> lastPacket (rr r)
      \<and> fetchNext ops st (rr r) = (Some err, res, st')"
  then show "Next ops r st = (Returned err, [CallFetchNext (rsID (rr r))], (storeRR r res)\<lparr>lastErr := Some err\<rparr>, st')"
    by (simp add: Next_fetch_failed)
  show "Close ops ((storeRR r res)\<lparr>lastErr := Some err\<rparr>) st2
            = (Some err, [], (storeRR r res)\<lparr>lastErr := Some err\<rparr>, st2)"
    by (simp add: Close_def)
next
  show "fst (Next ops (r\<lparr>lastErr := x\<rparr>) st) = fst (Next ops r st)"
    by (simp add: Next_ignores_lastErr)
  show "fst (snd (Next ops (r\<lparr>lastErr := x\<rparr>) st)) = fst (snd (Next ops r st))"
    by (simp add: Next_ignores_lastErr)
next
  assume "\<not> IsBad ops st \<and> numRow (rr r) \<le> pos r \<and> \<not> lastPacket (rr r)"
  then show "fst (snd (Next ops (r\<lparr>lastErr := x\<rparr>) st)) = [CallFetchNext (rsID (rr r))]"
    by (simp add: Next_calls)
next
  assume "IsBad ops st"
  then show "Next ops (r\<lparr>lastErr := x\<rparr>) st = (Returned ErrBadConn, [], r\<lparr>lastErr := x\<rparr>, st)"
    by (simp add: Next_def)
qed

theorem fetch_failure_recorded_witness:
  "Next scriptedOps cursorAt3 (idleSession [(Some (SessionError 1), emptyPage)])
     = (Returned (SessionError 1), [CallFetchNext 7],
        \<lparr>s = 1, rrs = [emptyPage], rr = emptyPage, idx = 0, pos = 3, lastErr = Some (SessionError 1)\<rparr>,
        idleSession [])
   \<and> Close scriptedOps \<lparr>s = 1, rrs = [emptyPage], rr = emptyPage, idx = 0, pos = 3, lastErr = Some (SessionError 1)\<rparr> (idleSession [])
     = (Some (SessionError 1), [],
        \<lparr>s = 1, rrs = [emptyPage], rr = emptyPage, idx = 0, pos = 3, lastErr = Some (SessionError 1)\<rparr>, idleSession [])
   \<and> Next scriptedOps (cursorAt3\<lparr>lastErr := Some (SessionError 1)\<rparr>) \<lparr>bad = True, replies = []\<rparr>
     = (Returned ErrBadConn, [], cursorAt3\<lparr>lastErr := Some (SessionError 1)\<rparr>, \<lparr>bad = True, replies = []\<rparr>)"
proof -
  have a: "\<not> IsBad scriptedOps (idleSession [(Some (SessionError 1), emptyPage)])
     \<and> numRow (rr cursorAt3) \<le> pos cursorAt3 \<and> \<not> lastPacket (rr cursorAt3)
     \<and> fetchNext scriptedOps (idleSession [(Some (SessionError 1), emptyPage)]) (rr cursorAt3)
         = (Some (SessionError 1), emptyPage, idleSession [])"
    by (simp add: scriptedOps_def idleSession_def cursorAt3_def page1_def numRow_def)
  have b: "IsBad scriptedOps \<lparr>bad = True, replies = []\<rparr>" by (simp add: scriptedOps_def)
  have c: "storeRR cursorAt3 emptyPage\<lparr>lastErr := Some (SessionError 1)\<rparr>
     = \<lparr>s = 1, rrs = [emptyPage], rr = emptyPage, idx = 0, pos = 3, lastErr = Some (SessionError 1)\<rparr>"
    by (simp add: storeRR_def cursorAt3_def)
  have d: "rsID (rr cursorAt3) = 7" by (simp add: cursorAt3_def page1_def)
  from a c d fetch_failure_recorded [of scriptedOps "idleSession [(Some (SessionError 1), emptyPage)]" cursorAt3
      "SessionError 1" emptyPage "idleSession []" "idleSession []"]
    b fetch_failure_recorded [of scriptedOps "\<lparr>bad = True, replies = []\<rparr>" cursorAt3 _ _ _ _ "Some (SessionError 1)"]
  show ?thesis by simp
qed

subsection \<open>Advancing to the next result set\<close>

text \<open>
  Claim C4, evaluated where it fails. A call returns two result sets, of three and of two
  rows. After the three rows of the first have been read, \<^verbatim>\<open>NextResultSet\<close> makes the
  second result set current and leaves \<^verbatim>\<open>pos\<close> at 3, above the row count 2 of the
  current result set; the following \<^verbatim>\<open>Next\<close> returns \<^verbatim>\<open>io.EOF\<close> and neither row of
  the second result set is delivered. (\<^verbatim>\<open>Next\<close> sets \<^verbatim>\<open>pos\<close> to 0 when a fetch
  replaces the rows; \<^verbatim>\<open>NextResultSet\<close> replaces them without doing so.)
\<close>

theorem NextResultSet_keeps_pos:
  "newQueryResultSet 1 [setA, setB] = Inr (twoSets 0 0 setA)
   \<and> NextN scriptedOps 3 (twoSets 0 0 setA) (idleSession [])
       = ([RowCopied [Plain 10, Plain 0], RowCopied [Plain 11, Plain 1], RowCopied [Plain 12, Plain 2]],
          [], twoSets 0 3 setA, idleSession [])
   \<and> NextResultSet (twoSets 0 3 setA) = Inr (None, twoSets 1 3 setB)
   \<and> pos (twoSets 1 3 setB) = 3 \<and> numRow (rr (twoSets 1 3 setB)) = 2
   \<and> Next scriptedOps (twoSets 1 3 setB) (idleSession []) = (Returned EOF, [], twoSets 1 3 setB, idleSession [])"
  by (simp add: numeral_eq_Suc Next_def copyAndAdvance_def copyRow_def numRow_def storeRR_def
      NextResultSet_def HasNextResultSet_def newQueryResultSet_def
      scriptedOps_def idleSession_def twoSets_def setA_def setB_def)

text \<open>
  Claim C10, evaluated where it fails. A call returns a first result set that is paged
  (\<^verbatim>\<open>page1\<close>, three rows, not the last packet) and a second one of two rows. The three
  rows are read and the fetch of the next page fails: the error is returned and stored.
  \<^verbatim>\<open>NextResultSet\<close> then returns \<^verbatim>\<open>nil\<close>, clears the stored error and makes the
  second result set current, but leaves \<^verbatim>\<open>pos\<close> at 3; the following \<^verbatim>\<open>Next\<close>
  returns \<^verbatim>\<open>io.EOF\<close>, so that no row of the second result set can be read.
\<close>

theorem errored_cursor_advances_past_rows:
  "newQueryResultSet 1 [page1, setB] = Inr (pagedThenB page1 page1 0 0 None)
   \<and> NextN scriptedOps 4 (pagedThenB page1 page1 0 0 None) (idleSession [(Some (SessionError 1), emptyPage)])
       = ([RowCopied [Plain 10, Plain 0], RowCopied [Plain 11, Plain 1], RowCopied [Plain 12, Plain 2],
           Returned (SessionError 1)],
          [CallFetchNext 7],
          pagedThenB emptyPage emptyPage 0 3 (Some (SessionError 1)), idleSession [])
   \<and> HasNextResultSet (pagedThenB emptyPage emptyPage 0 3 (Some (SessionError 1)))
   \<and> NextResultSet (pagedThenB emptyPage emptyPage 0 3 (Some (SessionError 1)))
       = Inr (None, pagedThenB emptyPage setB 1 3 None)
   \<and> lastErr (pagedThenB emptyPage setB 1 3 None) = None
   \<and> numRow (rr (pagedThenB emptyPage setB 1 3 None)) = 2
   \<and> Next scriptedOps (pagedThenB emptyPage setB 1 3 None) (idleSession [])
       = (Returned EOF, [], pagedThenB emptyPage setB 1 3 None, idleSession [])"
  by (simp add: numeral_eq_Suc Next_def copyAndAdvance_def copyRow_def numRow_def storeRR_def
      NextResultSet_def HasNextResultSet_def newQueryResultSet_def
      scriptedOps_def idleSession_def pagedThenB_def page1_def setB_def emptyPage_def)

subsection \<open>Close\<close>

text \<open>
  Claim C6, as stated, fails: \<^verbatim>\<open>Close\<close> is not idempotent. On a cursor without stored
  error whose result set is not closed, \<^verbatim>\<open>Close\<close> sends the release request; called
  again on the cursor and session it left, it sends the release request again.
\<close>

theorem Close_twice_releases_twice:
  "fst (snd (Close scriptedOps freshCursor (idleSession []))) = [CallCloseResultsetID 7]
   \<and> fst (snd (Close scriptedOps
                  (fst (snd (snd (Close scriptedOps freshCursor (idleSession [])))))
                  (snd (snd (snd (Close scriptedOps freshCursor (idleSession []))))))) = [CallCloseResultsetID 7]"
  by (simp add: Close_def scriptedOps_def freshCursor_def page1_def)

text \<open>
  Claim C6, amended. \<^verbatim>\<open>Close\<close> sends the release request for the current result set if
  and only if no error is stored and the result set does not report \<^verbatim>\<open>closed()\<close>; with
  a stored error it returns that error without a request; with no stored error and a
  closed result set it returns \<^verbatim>\<open>nil\<close> without a request. \<^verbatim>\<open>Close\<close> never changes the
  cursor, so a repeated \<^verbatim>\<open>Close\<close> decides as the first one did and issues the same
  requests again.
\<close>

theorem Close_release_rule:
  "fst (snd (Close ops r st))
     = (if lastErr r = None \<and> \<not> closed (rr r) then [CallCloseResultsetID (rsID (rr r))] else [])
   \<and> (\<forall>err. lastErr r = Some err \<longrightarrow> Close ops r st = (Some err, [], r, st))
   \<and> (lastErr r = None \<and> closed (rr r) \<longrightarrow> Close ops r st = (None, [], r, st))
   \<and> fst (snd (snd (Close ops r st))) = r
   \<and> fst (snd (Close ops (fst (snd (snd (Close ops r st)))) st2)) = fst (snd (Close ops r st))"
  by (auto simp add: Close_def split: option.splits prod.splits)

theorem Close_release_rule_witness:
  "Close scriptedOps freshCursor (idleSession []) = (None, [CallCloseResultsetID 7], freshCursor, idleSession [])
   \<and> Close scriptedOps (freshCursor\<lparr>lastErr := Some (SessionError 1)\<rparr>) (idleSession [])
       = (Some (SessionError 1), [], freshCursor\<lparr>lastErr := Some (SessionError 1)\<rparr>, idleSession [])
   \<and> Close scriptedOps (freshCursor\<lparr>rr := page2\<rparr>) (idleSession [])
       = (None, [], freshCursor\<lparr>rr := page2\<rparr>, idleSession [])"
proof -
  have a: "lastErr (freshCursor\<lparr>lastErr := Some (SessionError 1)\<rparr>) = Some (SessionError 1)" by simp
  have b: "lastErr (freshCursor\<lparr>rr := page2\<rparr>) = None \<and> closed (rr (freshCursor\<lparr>rr := page2\<rparr>))"
    by (simp add: freshCursor_def page2_def)
  have c: "Close scriptedOps freshCursor (idleSession []) = (None, [CallCloseResultsetID 7], freshCursor, idleSession [])"
    by (simp add: Close_def scriptedOps_def freshCursor_def page1_def)
  from a b c
    Close_release_rule [of scriptedOps "freshCursor\<lparr>lastErr := Some (SessionError 1)\<rparr>" "idleSession []"]
    Close_release_rule [of scriptedOps "freshCursor\<lparr>rr := page2\<rparr>" "idleSession []"]
  show ?thesis by blast
qed

section \<open>Properties of the cache\<close>

text \<open>
  Claim C5. After \<^verbatim>\<open>set(id, qrs)\<close>, \<^verbatim>\<open>Get(id)\<close> returns the cursor and \<^verbatim>\<open>true\<close>; after
  \<^verbatim>\<open>cleanup\<close> for the session of that cursor, \<^verbatim>\<open>Get(id)\<close> returns \<^verbatim>\<open>false\<close>; and
  \<^verbatim>\<open>cleanup(sp)\<close> removes exactly the entries whose cursor belongs to session \<^verbatim>\<open>sp\<close>:
  those are gone, every entry of another session reads as before, and no entry appears.
\<close>

theorem cache_register_lookup_evict:
  "Get (snd (set_cache c ident qrs)) ident = (Some qrs, True)
   \<and> fst (set_cache c ident qrs) = ident
   \<and> Get (cleanup (snd (set_cache c ident qrs)) (s qrs)) ident = (None, False)
   \<and> (\<forall>other. cleanup c sp other = (case c other of None \<Rightarrow> None | Some q \<Rightarrow> if s q = sp then None else Some q))
   \<and> (\<forall>other q. c other = Some q \<and> s q = sp \<longrightarrow> Get (cleanup c sp) other = (None, False))
   \<and> (\<forall>other q. c other = Some q \<and> s q \<noteq> sp \<longrightarrow> Get (cleanup c sp) other = Get c other)
   \<and> (\<forall>other. c other = None \<longrightarrow> Get (cleanup c sp) other = (None, False))"
  by (simp add: Get_def set_cache_def cleanup_def)

theorem cache_register_lookup_evict_witness:
  "Get cacheAB 7 = (Some freshCursor, True)
   \<and> Get (cleanup cacheAB (s freshCursor)) 7 = (None, False)
   \<and> cacheAB 9 = Some otherCursor \<and> s otherCursor \<noteq> 1
   \<and> Get (cleanup cacheAB 1) 9 = (Some otherCursor, True)"
proof -
  have a: "cacheAB = snd (set_cache (snd (set_cache newQueryResultSetCache 9 otherCursor)) 7 freshCursor)"
    by (simp add: cacheAB_def)
  have b: "cacheAB 9 = Some otherCursor \<and> s otherCursor \<noteq> 1"
    by (simp add: cacheAB_def set_cache_def otherCursor_def)
  have c: "Get cacheAB 9 = (Some otherCursor, True)"
    using b by (simp add: Get_def)
  from cache_register_lookup_evict
         [of "snd (set_cache newQueryResultSetCache 9 otherCursor)" 7 freshCursor 1]
       cache_register_lookup_evict [of cacheAB 7 freshCursor 1] a b c
  show ?thesis by simp
qed

section \<open>Properties of the rounding\<close>






end
